theory Spec2Isabelle
  imports Main "HOL-Library.Sublist"
begin

section \<open>Targets: requirements and candidate fragments\<close>

text \<open>
  The rules of \<^verbatim>\<open>fenjing/rules/get_attritem.py\<close> build Python tuples whose first
  component is a tag from \<^verbatim>\<open>const.py\<close>.  One datatype holds both the requirements
  (what is wanted) and the fragments of a candidate (how it is written), as the tuples do.
  The three-component tuple \<^verbatim>\<open>(tag, obj_req, name)\<close> is \<open>Access tag obj_req name\<close>;
  \<open>Requirement\<close> stands for the requirement kinds that this file never builds itself.
\<close>

datatype tag = ATTRIBUTE | ITEM | CLASS_ATTRIBUTE

datatype target =
    LITERAL string
  | STRING string
  | INTEGER int
  | WHITESPACE
  | UNSATISFIED
  | ENCLOSE_UNDER int target
  | WRAP "target list"
  | ONEOF "target list list"
  | EXPRESSION int "target list"
  | Access tag target string
  | FUNCTION_CALL target "target list"
  | CHAINED_ATTRIBUTE_ITEM target "(tag \<times> string) list"
  | FLASK_CONTEXT_VAR string
  | Requirement string "target list"

text \<open>
  The table \<^verbatim>\<open>precedence\<close> of \<^verbatim>\<open>payload_gen.py\<close> maps the name of a grammar construct
  to its level.  Every rule below takes it as the parameter \<open>precedence\<close>; the unused
  \<^verbatim>\<open>context\<close> argument is kept as a parameter of an arbitrary type.  A mapping entry of
  \<^verbatim>\<open>targets_from_pattern\<close> is either one target or a list of targets.
\<close>

type_synonym precedence_table = "string \<Rightarrow> int"

datatype pattern_value = One target | Many "target list"

type_synonym pattern_mapping = "(string \<times> pattern_value) list"

type_synonym pattern_function = "string \<Rightarrow> pattern_mapping \<Rightarrow> target list"

section \<open>The regular expression of the dotted-access rules\<close>

text \<open>
  \<^verbatim>\<open>re.match("[A-Za-z_]([A-Za-z0-9_]+)?", name)\<close> matches at the start of \<^verbatim>\<open>name\<close>
  and returns the match, or \<^verbatim>\<open>None\<close>.  The match is one character of the first class
  followed by the longest run of characters of the second class (the group is greedy
  and optional).  \<^verbatim>\<open>re.match\<close> does not require the match to reach the end of the name.
\<close>

definition is_name_start :: "char \<Rightarrow> bool" where
  "is_name_start c =
     (let n = (of_char c :: nat)
      in (65 \<le> n \<and> n \<le> 90) \<or> (97 \<le> n \<and> n \<le> 122) \<or> n = 95)"

definition is_name_char :: "char \<Rightarrow> bool" where
  "is_name_char c =
     (let n = (of_char c :: nat)
      in (65 \<le> n \<and> n \<le> 90) \<or> (97 \<le> n \<and> n \<le> 122) \<or> (48 \<le> n \<and> n \<le> 57) \<or> n = 95)"

definition re_match_name :: "string \<Rightarrow> string option" where
  "re_match_name name =
     (case name of
        [] \<Rightarrow> None
      | c # cs \<Rightarrow> if is_name_start c then Some (c # takeWhile is_name_char cs) else None)"

text \<open>
  The spec's own words for a valid dotted-access identifier: the name is entirely of the
  form \<^verbatim>\<open>[A-Za-z_]\<close> followed by zero or more of \<^verbatim>\<open>[A-Za-z0-9_]\<close>.
\<close>

definition spec_valid_identifier :: "string \<Rightarrow> bool" where
  "spec_valid_identifier name =
     (case name of [] \<Rightarrow> False | c # cs \<Rightarrow> is_name_start c \<and> list_all is_name_char cs)"

section \<open>Attribute rules\<close>

definition gen_attribute_normal1 ::
  "precedence_table \<Rightarrow> 'c \<Rightarrow> target \<Rightarrow> string \<Rightarrow> target list" where
  "gen_attribute_normal1 precedence context obj_req attr_name =
     (if re_match_name attr_name = None then [UNSATISFIED]
      else [EXPRESSION (precedence ''attribute'')
              [ENCLOSE_UNDER (precedence ''attribute'') obj_req,
               LITERAL ''.'',
               LITERAL attr_name]])"

definition gen_attribute_normal2 ::
  "precedence_table \<Rightarrow> 'c \<Rightarrow> target \<Rightarrow> string \<Rightarrow> target list" where
  "gen_attribute_normal2 precedence context obj_req attr_name =
     [EXPRESSION (precedence ''attribute'')
        [ENCLOSE_UNDER (precedence ''attribute'') obj_req,
         LITERAL ''['',
         STRING attr_name,
         LITERAL '']'']]"

definition gen_attribute_attrfilter ::
  "precedence_table \<Rightarrow> 'c \<Rightarrow> target \<Rightarrow> string \<Rightarrow> target list" where
  "gen_attribute_attrfilter precedence context obj_req attr_name =
     [EXPRESSION (precedence ''filter'')
        [ENCLOSE_UNDER (precedence ''filter'') obj_req,
         LITERAL ''|attr'',
         WRAP [STRING attr_name]]]"

definition gen_attribute_attrfilter2 ::
  "precedence_table \<Rightarrow> 'c \<Rightarrow> target \<Rightarrow> string \<Rightarrow> target list" where
  "gen_attribute_attrfilter2 precedence context obj_req attr_name =
     [EXPRESSION (precedence ''filter'')
        [ENCLOSE_UNDER (precedence ''filter'') obj_req,
         LITERAL ''|attr('',
         WHITESPACE,
         STRING attr_name,
         WHITESPACE,
         LITERAL '',)'']]"

definition gen_attribute_map ::
  "pattern_function \<Rightarrow> precedence_table \<Rightarrow> 'c \<Rightarrow> target \<Rightarrow> string \<Rightarrow> target list" where
  "gen_attribute_map targets_from_pattern precedence context obj_req attr_name =
     [EXPRESSION (precedence ''filter_with_function_call'')
        (targets_from_pattern ''( OBJ , ) | map( ATTR , NAME ) | first''
           [(''OBJ'', One obj_req),
            ('' '', One WHITESPACE),
            (''ATTR'', One (STRING ''attr'')),
            (''NAME'', One (STRING attr_name))])]"

definition gen_attribute_map3 ::
  "pattern_function \<Rightarrow> precedence_table \<Rightarrow> 'c \<Rightarrow> target \<Rightarrow> string \<Rightarrow> target list" where
  "gen_attribute_map3 targets_from_pattern precedence context obj_req attr_name =
     (if length attr_name > 4 then [UNSATISFIED]
      else [EXPRESSION (precedence ''filter_with_function_call'')
              (targets_from_pattern
                 ''{ANYTHING:OBJ}|items|map(LAST)|map(*(ATTRNAME|batch(4)|map(JOIN)|list))|list|FILTER_THAT''
                 [(''ANYTHING'',
                     Many [ONEOF [[LITERAL ''x''], [INTEGER 0], [INTEGER 1]]]),
                  (''OBJ'', One obj_req),
                  (''LAST'', One (STRING ''last'')),
                  (''FILTER_THAT'', One (ONEOF [[LITERAL ''last''], [LITERAL ''first'']])),
                  ('' '', One WHITESPACE),
                  (''4'', One (INTEGER 4)),
                  (''ATTRNAME'',
                     One (ENCLOSE_UNDER (precedence ''filter'') (STRING (''attr'' @ attr_name)))),
                  (''JOIN'', One (STRING ''join''))])])"

definition gen_attribute_map4 ::
  "pattern_function \<Rightarrow> precedence_table \<Rightarrow> 'c \<Rightarrow> target \<Rightarrow> string \<Rightarrow> target list" where
  "gen_attribute_map4 targets_from_pattern precedence context obj_req attr_name =
     (if length attr_name < 4 then [UNSATISFIED]
      else [EXPRESSION (precedence ''filter_with_function_call'')
              (targets_from_pattern
                 ''{ANYTHING:OBJ}|items|map(LAST)|map(*(ATTRNAME|batch(NAMELENGTH)|map(JOIN)|list|reverse))|list|FILTER_THAT''
                 [(''ANYTHING'',
                     Many [ONEOF [[LITERAL ''x''], [INTEGER 0], [INTEGER 1]]]),
                  (''OBJ'', One obj_req),
                  (''LAST'', One (STRING ''last'')),
                  (''FILTER_THAT'', One (ONEOF [[LITERAL ''last''], [LITERAL ''first'']])),
                  ('' '', One WHITESPACE),
                  (''4'', One (INTEGER 4)),
                  (''ATTRNAME'',
                     One (ENCLOSE_UNDER (precedence ''filter'') (STRING (attr_name @ ''attr'')))),
                  (''NAMELENGTH'', One (INTEGER (int (length attr_name)))),
                  (''JOIN'', One (STRING ''join''))])])"

section \<open>Item rules\<close>

definition gen_item_normal1 ::
  "precedence_table \<Rightarrow> 'c \<Rightarrow> target \<Rightarrow> string \<Rightarrow> target list" where
  "gen_item_normal1 precedence context obj_req item_name =
     (if re_match_name item_name = None then [UNSATISFIED]
      else [EXPRESSION (precedence ''item'')
              [ENCLOSE_UNDER (precedence ''item'') obj_req,
               LITERAL ''.'',
               LITERAL item_name]])"

definition gen_item_normal2 ::
  "precedence_table \<Rightarrow> 'c \<Rightarrow> target \<Rightarrow> string \<Rightarrow> target list" where
  "gen_item_normal2 precedence context obj_req item_name =
     [EXPRESSION (precedence ''item'')
        [ENCLOSE_UNDER (precedence ''item'') obj_req,
         LITERAL ''['',
         STRING item_name,
         LITERAL '']'']]"

definition gen_item_getfunc ::
  "precedence_table \<Rightarrow> 'c \<Rightarrow> target \<Rightarrow> string \<Rightarrow> target list" where
  "gen_item_getfunc precedence context obj_req item_name =
     [EXPRESSION (precedence ''filter_with_function_call'')
        [FUNCTION_CALL (Access ATTRIBUTE obj_req ''get'') [STRING item_name]]]"

definition gen_item_getfunc2 ::
  "precedence_table \<Rightarrow> 'c \<Rightarrow> target \<Rightarrow> string \<Rightarrow> target list" where
  "gen_item_getfunc2 precedence context obj_req item_name =
     (let target_head =
            [ENCLOSE_UNDER (precedence ''function_call'') (Access ATTRIBUTE obj_req ''get''),
             LITERAL ''('',
             WHITESPACE,
             STRING item_name,
             WHITESPACE]
      in [EXPRESSION (precedence ''function_call'')
            [ONEOF [target_head @ [LITERAL '')''], target_head @ [LITERAL '',)'']]]])"

definition gen_item_dunderfunc ::
  "precedence_table \<Rightarrow> 'c \<Rightarrow> target \<Rightarrow> string \<Rightarrow> target list" where
  "gen_item_dunderfunc precedence context obj_req item_name =
     [EXPRESSION (precedence ''filter_with_function_call'')
        [FUNCTION_CALL (Access ATTRIBUTE obj_req ''__getitem__'') [STRING item_name]]]"

definition gen_item_dunderfunc2 ::
  "precedence_table \<Rightarrow> 'c \<Rightarrow> target \<Rightarrow> string \<Rightarrow> target list" where
  "gen_item_dunderfunc2 precedence context obj_req item_name =
     (let target_head =
            [ENCLOSE_UNDER (precedence ''function_call'')
               (Access ATTRIBUTE obj_req ''__getitem__''),
             LITERAL ''('',
             WHITESPACE,
             STRING item_name,
             WHITESPACE]
      in [EXPRESSION (precedence ''function_call'')
            [ONEOF [target_head @ [LITERAL '')''], target_head @ [LITERAL '',)'']]]])"

section \<open>Class attribute rules\<close>

definition gen_class_attribute_literal ::
  "precedence_table \<Rightarrow> 'c \<Rightarrow> target \<Rightarrow> string \<Rightarrow> target list" where
  "gen_class_attribute_literal precedence context obj_req attr_name =
     (let class_target = Access ATTRIBUTE obj_req ''__class__''
      in [EXPRESSION (precedence ''attribute'')
            [ENCLOSE_UNDER (precedence ''attribute'') class_target,
             LITERAL (''.'' @ attr_name)]])"

definition gen_class_attribute_attrfilter ::
  "precedence_table \<Rightarrow> 'c \<Rightarrow> target \<Rightarrow> string \<Rightarrow> target list" where
  "gen_class_attribute_attrfilter precedence context obj_req attr_name =
     (let class_target = Access ATTRIBUTE obj_req ''__class__''
      in [EXPRESSION (precedence ''filter'')
            [ENCLOSE_UNDER (precedence ''filter'') class_target,
             LITERAL ''|attr'',
             WRAP [STRING attr_name]]])"

definition gen_class_attribute_attrfilter2 ::
  "precedence_table \<Rightarrow> 'c \<Rightarrow> target \<Rightarrow> string \<Rightarrow> target list" where
  "gen_class_attribute_attrfilter2 precedence context obj_req attr_name =
     (let class_target = Access ATTRIBUTE obj_req ''__class__''
      in [EXPRESSION (precedence ''filter'')
            [ENCLOSE_UNDER (precedence ''filter'') class_target,
             LITERAL ''|attr('',
             STRING attr_name,
             LITERAL '',)'']])"

section \<open>Chained access\<close>

text \<open>
  \<^verbatim>\<open>gen_chained_attribute_item_normal(context, obj_req, *attr_item_req)\<close>: the steps are
  the variadic arguments, each a pair \<^verbatim>\<open>(req_type, req_name)\<close>.
\<close>

definition gen_chained_attribute_item_normal ::
  "'c \<Rightarrow> target \<Rightarrow> (tag \<times> string) list \<Rightarrow> target list" where
  "gen_chained_attribute_item_normal context obj_req attr_item_req =
     (case attr_item_req of
        [] \<Rightarrow> [obj_req]
      | first_req # other_req \<Rightarrow>
          (case first_req of (req_type, req_name) \<Rightarrow>
             (let got_req = Access req_type obj_req req_name
              in [CHAINED_ATTRIBUTE_ITEM got_req other_req])))"

text \<open>
  Unfolding a chained requirement: the rule is applied again to the chained requirement
  it returned, until no step is left; what the last application returns is the unfolded
  requirement.
\<close>

function unfold_chained :: "'c \<Rightarrow> target \<Rightarrow> (tag \<times> string) list \<Rightarrow> target option" where
  "unfold_chained context obj_req steps =
     (if steps = []
      then (case gen_chained_attribute_item_normal context obj_req steps of
              [t] \<Rightarrow> Some t
            | _ \<Rightarrow> None)
      else (case gen_chained_attribute_item_normal context obj_req steps of
              [CHAINED_ATTRIBUTE_ITEM got_req other_req] \<Rightarrow>
                unfold_chained context got_req other_req
            | _ \<Rightarrow> None))"
  by pat_completeness auto
termination
  by (relation "measure (\<lambda>(context, obj_req, steps). length steps)")
     (auto simp: gen_chained_attribute_item_normal_def split: list.splits prod.splits)

section \<open>Submitters\<close>

text \<open>
  \<^verbatim>\<open>fenjing/submitter.py\<close>.  An exception raised by the source is a value of \<open>error\<close>.
  A response (\<^verbatim>\<open>HTTPResponse\<close>, and the object returned by a requester) has a status
  code and a text.  A tamperer maps a payload to a payload and may raise.
\<close>

datatype error = ValueError | KeyError | IndexError | AssertionError

datatype HTTPResponse = HTTPResponse (status_code: int) (response_text: string)

type_synonym Tamperer = "string \<Rightarrow> error + string"

text \<open>
  \<^verbatim>\<open>shell_tamperer\<close>: the command is run by the operating system, here the parameter
  \<open>shell\<close>, which maps the command and its standard input to the return code and the
  standard output.
\<close>

definition shell_tamperer :: "(string \<Rightarrow> string \<Rightarrow> int \<times> string) \<Rightarrow> string \<Rightarrow> Tamperer" where
  "shell_tamperer shell shell_cmd payload =
     (case shell shell_cmd payload of
        (ret, out) \<Rightarrow> if ret \<noteq> 0 then Inl ValueError else Inr out)"

subsection \<open>update_content_length\<close>






text \<open>
  \<^verbatim>\<open>re.subn(b"Content-Length:.*", repl, header, 0, re.IGNORECASE)\<close>: the text is scanned
  from the left; where the literal matches without regard to ASCII case, the match runs
  on to the next line feed (the dot matches every byte but the line feed, so it takes a
  carriage return too), the replacement is written and the scan goes on behind the
  match.  The result is the new text and the number of replacements.
\<close>

definition ascii_lower :: "char \<Rightarrow> char" where
  "ascii_lower c =
     (let n = (of_char c :: nat) in if 65 \<le> n \<and> n \<le> 90 then char_of (n + 32) else c)"

definition match_ignorecase :: "string \<Rightarrow> string \<Rightarrow> bool" where
  "match_ignorecase literal s =
     (length literal \<le> length s \<and>
      map ascii_lower (take (length literal) s) = map ascii_lower literal)"









subsection \<open>BaseSubmitter\<close>

text \<open>
  What a submitter does to the outside is a history of events: the requests handed to
  the requester and the calls of the callback.  The requester (\<^verbatim>\<open>requester.py\<close>) is a
  parameter: it answers a request, given the history so far, with a response or with
  \<^verbatim>\<open>None\<close>.  A request is the keyword arguments of \<^verbatim>\<open>requester.request\<close>.
\<close>

datatype http_request =
  HTTPRequest (req_method: string) (req_url: string)
    (req_params: "string \<rightharpoonup> string") (req_data: "(string \<rightharpoonup> string) option")

datatype event =
    Request http_request
  | Callback string string "HTTPResponse option"

type_synonym history = "event list"

type_synonym requester = "history \<Rightarrow> http_request \<Rightarrow> HTTPResponse option"

definition add_tamperer :: "Tamperer list \<Rightarrow> Tamperer \<Rightarrow> Tamperer list" where
  "add_tamperer tamperers tamperer = tamperers @ [tamperer]"

text \<open>The loop \<^verbatim>\<open>for tamperer in self.tamperers: payload = tamperer(payload)\<close>.\<close>

fun apply_tamperers :: "Tamperer list \<Rightarrow> string \<Rightarrow> error + string" where
  "apply_tamperers [] payload = Inr payload"
| "apply_tamperers (tamperer # tamperers) payload =
     (case tamperer payload of
        Inl e \<Rightarrow> Inl e
      | Inr payload' \<Rightarrow> apply_tamperers tamperers payload')"

text \<open>
  \<^verbatim>\<open>BaseSubmitter.submit\<close>, for the tamperers and the \<^verbatim>\<open>submit_raw\<close> of the submitter;
  \<^verbatim>\<open>html.unescape\<close> is the parameter \<open>unescape\<close>.
\<close>

definition submit ::
  "(string \<Rightarrow> string) \<Rightarrow> Tamperer list \<Rightarrow>
   (string \<Rightarrow> 'h \<Rightarrow> HTTPResponse option \<times> 'h) \<Rightarrow>
   string \<Rightarrow> 'h \<Rightarrow> error + (HTTPResponse option \<times> 'h)" where
  "submit unescape tamperers submit_raw payload h =
     (case apply_tamperers tamperers payload of
        Inl e \<Rightarrow> Inl e
      | Inr payload' \<Rightarrow>
          (case submit_raw payload' h of
             (None, h') \<Rightarrow> Inr (None, h')
           | (Some resp, h') \<Rightarrow>
               Inr (Some (HTTPResponse (status_code resp) (unescape (response_text resp))),
                    h')))"

subsection \<open>FormSubmitter\<close>

text \<open>
  \<^verbatim>\<open>fill_form\<close> (\<^verbatim>\<open>form.py\<close>) is a parameter: it builds the request from the URL, the
  form, the inputs and the extra parameters.
\<close>

datatype 'f FormSubmitter =
  FormSubmitter (form_url: string) (form_form: 'f) (form_target_field: string)
    (form_extra_params: "string \<rightharpoonup> string") (form_tamperers: "Tamperer list")

definition FormSubmitter_submit_raw ::
  "(string \<Rightarrow> 'f \<Rightarrow> (string \<rightharpoonup> string) \<Rightarrow> (string \<rightharpoonup> string) \<Rightarrow> http_request) \<Rightarrow>
   requester \<Rightarrow> 'f FormSubmitter \<Rightarrow> string \<Rightarrow> history \<Rightarrow> HTTPResponse option \<times> history"
where
  "FormSubmitter_submit_raw fill_form req self raw_payload h =
     (let inputs = [form_target_field self \<mapsto> raw_payload];
          request = fill_form (form_url self) (form_form self) inputs (form_extra_params self);
          resp = req h request;
          h' = h @ [Request request, Callback ''form'' raw_payload resp]
      in (case resp of
            None \<Rightarrow> (None, h')
          | Some r \<Rightarrow> (Some (HTTPResponse (status_code r) (response_text r)), h')))"

subsection \<open>PathSubmitter\<close>

datatype PathSubmitter =
  PathSubmitter (path_url: string) (path_extra_params: "string \<rightharpoonup> string")
    (path_tamperers: "Tamperer list")

definition PathSubmitter_init :: "string \<Rightarrow> Tamperer list \<Rightarrow> PathSubmitter" where
  "PathSubmitter_init url tamperers =
     (let url = (if \<not> suffix ''/'' url then url @ ''/'' else url)
      in PathSubmitter url Map.empty (foldl add_tamperer [] tamperers))"

text \<open>\<^verbatim>\<open>urllib.parse.quote\<close> is the parameter \<open>quote\<close>.\<close>

definition PathSubmitter_submit_raw ::
  "(string \<Rightarrow> string) \<Rightarrow> requester \<Rightarrow> PathSubmitter \<Rightarrow> string \<Rightarrow> history \<Rightarrow>
   HTTPResponse option \<times> history" where
  "PathSubmitter_submit_raw quote req self raw_payload h =
     (if list_ex (\<lambda>w. sublist w raw_payload) [''/'', ''..'', '' '', ''%'']
      then (None, h)
      else (let request = HTTPRequest ''GET'' (path_url self @ quote raw_payload)
                            (path_extra_params self) None;
                resp = req h request;
                h' = h @ [Request request, Callback ''path'' raw_payload resp]
            in (case resp of
                  None \<Rightarrow> (None, h')
                | Some r \<Rightarrow> (Some (HTTPResponse (status_code r) (response_text r)), h'))))"

section \<open>Command line\<close>

subsection \<open>is_form_has_response\<close>

text \<open>
  \<^verbatim>\<open>fenjing/cli.py\<close>.  The marker of each input field is drawn at random: \<open>markers n\<close> is
  the marker of the \<open>n\<close>-th draw.  \<open>inputs\<close> is \<^verbatim>\<open>form["inputs"]\<close> in the order of the
  iteration.  The log line for a local URL has no effect on the result and is left out.
\<close>

text \<open>The list comprehension that submits the patterns in order.\<close>

fun submit_each ::
  "(string \<Rightarrow> history \<Rightarrow> error + (HTTPResponse option \<times> history)) \<Rightarrow>
   string list \<Rightarrow> history \<Rightarrow> error + (HTTPResponse option list \<times> history)" where
  "submit_each sub [] h = Inr ([], h)"
| "submit_each sub (payload # payloads) h =
     (case sub payload h of
        Inl e \<Rightarrow> Inl e
      | Inr (result, h') \<Rightarrow>
          (case submit_each sub payloads h' of
             Inl e \<Rightarrow> Inl e
           | Inr (results, h'') \<Rightarrow> Inr (result # results, h'')))"

text \<open>\<^verbatim>\<open>for result in musterror_result if result is not None\<close>.\<close>

fun not_none :: "'a option list \<Rightarrow> 'a list" where
  "not_none [] = []"
| "not_none (None # results) = not_none results"
| "not_none (Some result # results) = result # not_none results"

text \<open>The four submissions for one input field.\<close>

definition probe_field ::
  "(string \<Rightarrow> string) \<Rightarrow> (string \<Rightarrow> string \<Rightarrow> int \<times> string) \<Rightarrow>
   (string \<Rightarrow> 'f \<Rightarrow> (string \<rightharpoonup> string) \<Rightarrow> (string \<rightharpoonup> string) \<Rightarrow> http_request) \<Rightarrow>
   requester \<Rightarrow> string \<Rightarrow> 'f \<Rightarrow> string option \<Rightarrow> string \<Rightarrow> string \<Rightarrow> history \<Rightarrow>
   error + (HTTPResponse option \<times> HTTPResponse option list \<times> history)" where
  "probe_field unescape shell fill_form req url form tamper_cmd input_field marker h =
     (let submitter = FormSubmitter url form input_field Map.empty [];
          submitter =
            (case tamper_cmd of
               None \<Rightarrow> submitter
             | Some cmd \<Rightarrow>
                 if cmd = [] then submitter
                 else FormSubmitter url form input_field Map.empty
                        (add_tamperer (form_tamperers submitter) (shell_tamperer shell cmd)));
          sub = submit unescape (form_tamperers submitter)
                  (FormSubmitter_submit_raw fill_form req submitter)
      in (case sub marker h of
            Inl e \<Rightarrow> Inl e
          | Inr (result1, h1) \<Rightarrow>
              (case submit_each sub
                      (map (\<lambda>pattern. pattern @ marker) [''{{'', ''{%'', ''{#'']) h1 of
                 Inl e \<Rightarrow> Inl e
               | Inr (musterror_result, h2) \<Rightarrow> Inr (result1, musterror_result, h2))))"

text \<open>The condition of the \<^verbatim>\<open>if\<close> that returns \<^verbatim>\<open>True\<close>.\<close>

definition has_response ::
  "string \<Rightarrow> HTTPResponse option \<Rightarrow> HTTPResponse option list \<Rightarrow> bool" where
  "has_response marker result1 musterror_result =
     (case result1 of
        None \<Rightarrow> False
      | Some r1 \<Rightarrow>
          sublist marker (response_text r1) \<and>
          list_ex (\<lambda>result. \<not> sublist marker (response_text result))
            (not_none musterror_result))"

fun is_form_has_response_from ::
  "(string \<Rightarrow> string) \<Rightarrow> (string \<Rightarrow> string \<Rightarrow> int \<times> string) \<Rightarrow>
   (string \<Rightarrow> 'f \<Rightarrow> (string \<rightharpoonup> string) \<Rightarrow> (string \<rightharpoonup> string) \<Rightarrow> http_request) \<Rightarrow>
   requester \<Rightarrow> (nat \<Rightarrow> string) \<Rightarrow> string \<Rightarrow> 'f \<Rightarrow> string option \<Rightarrow>
   string list \<Rightarrow> nat \<Rightarrow> history \<Rightarrow> error + (bool \<times> history)" where
  "is_form_has_response_from unescape shell fill_form req markers url form tamper_cmd [] n h =
     Inr (False, h)"
| "is_form_has_response_from unescape shell fill_form req markers url form tamper_cmd
     (input_field # inputs) n h =
     (case probe_field unescape shell fill_form req url form tamper_cmd input_field
             (markers n) h of
        Inl e \<Rightarrow> Inl e
      | Inr (result1, musterror_result, h') \<Rightarrow>
          if has_response (markers n) result1 musterror_result then Inr (True, h')
          else is_form_has_response_from unescape shell fill_form req markers url form
                 tamper_cmd inputs (Suc n) h')"

definition is_form_has_response ::
  "(string \<Rightarrow> string) \<Rightarrow> (string \<Rightarrow> string \<Rightarrow> int \<times> string) \<Rightarrow>
   (string \<Rightarrow> 'f \<Rightarrow> (string \<rightharpoonup> string) \<Rightarrow> (string \<rightharpoonup> string) \<Rightarrow> http_request) \<Rightarrow>
   requester \<Rightarrow> (nat \<Rightarrow> string) \<Rightarrow> string \<Rightarrow> 'f \<Rightarrow> string list \<Rightarrow> string option \<Rightarrow>
   history \<Rightarrow> error + (bool \<times> history)" where
  "is_form_has_response unescape shell fill_form req markers url form inputs tamper_cmd h =
     is_form_has_response_from unescape shell fill_form req markers url form tamper_cmd
       inputs 0 h"

text \<open>
  The probes of the input fields one after the other, as the loop makes them, each with
  its marker: the list ends where a tamperer raises.
\<close>

fun field_probes ::
  "(string \<Rightarrow> string) \<Rightarrow> (string \<Rightarrow> string \<Rightarrow> int \<times> string) \<Rightarrow>
   (string \<Rightarrow> 'f \<Rightarrow> (string \<rightharpoonup> string) \<Rightarrow> (string \<rightharpoonup> string) \<Rightarrow> http_request) \<Rightarrow>
   requester \<Rightarrow> (nat \<Rightarrow> string) \<Rightarrow> string \<Rightarrow> 'f \<Rightarrow> string option \<Rightarrow>
   string list \<Rightarrow> nat \<Rightarrow> history \<Rightarrow>
   (string \<times> HTTPResponse option \<times> HTTPResponse option list) list" where
  "field_probes unescape shell fill_form req markers url form tamper_cmd [] n h = []"
| "field_probes unescape shell fill_form req markers url form tamper_cmd
     (input_field # inputs) n h =
     (case probe_field unescape shell fill_form req url form tamper_cmd input_field
             (markers n) h of
        Inl e \<Rightarrow> []
      | Inr (result1, musterror_result, h') \<Rightarrow>
          (markers n, result1, musterror_result) #
          field_probes unescape shell fill_form req markers url form tamper_cmd inputs
            (Suc n) h')"

subsection \<open>do_submit_cmdexec\<close>

text \<open>
  The submitter as \<^verbatim>\<open>do_submit_cmdexec\<close> uses it: whether it is an instance of
  \<^verbatim>\<open>ExtraParamAndDataCustomizable\<close> (\<^verbatim>\<open>FormSubmitter\<close>, \<^verbatim>\<open>PathSubmitter\<close> and
  \<^verbatim>\<open>JsonSubmitter\<close> are), its dictionary \<^verbatim>\<open>extra_params\<close>, and its \<^verbatim>\<open>submit\<close>, which
  sees the current extra parameters.
\<close>

datatype 'h submitter_object =
  Submitter (customizable: bool) (extra_params: "string \<rightharpoonup> string")
    (submit_of: "(string \<rightharpoonup> string) \<Rightarrow> string \<Rightarrow> 'h \<Rightarrow> error + (HTTPResponse option \<times> 'h)")

text \<open>\<^verbatim>\<open>self.extra_params[k] = v\<close> and \<^verbatim>\<open>del self.extra_params[k]\<close>.\<close>

definition set_extra_param ::
  "'h submitter_object \<Rightarrow> string \<Rightarrow> string \<Rightarrow> 'h submitter_object" where
  "set_extra_param self k v =
     Submitter (customizable self) ((extra_params self)(k \<mapsto> v)) (submit_of self)"

definition unset_extra_param ::
  "'h submitter_object \<Rightarrow> string \<Rightarrow> error + 'h submitter_object" where
  "unset_extra_param self k =
     (case extra_params self k of
        None \<Rightarrow> Inl KeyError
      | Some v \<Rightarrow>
          Inr (Submitter (customizable self) ((extra_params self)(k := None)) (submit_of self)))"

text \<open>
  The goals handed to \<^verbatim>\<open>generate\<close>, which is a parameter (\<^verbatim>\<open>full_payload_gen.py\<close>) and
  returns the payload, or \<^verbatim>\<open>None\<close>, and the flag \<^verbatim>\<open>will_print\<close>.  The log is the list of
  the levels of the messages written.
\<close>

datatype goal = CONFIG | EVAL target | OS_POPEN_READ string

datatype log_level = INFO | WARNING

text \<open>
  The first half of \<^verbatim>\<open>do_submit_cmdexec\<close>, which parses the command: it either returns
  at once or leaves a payload, \<^verbatim>\<open>will_print\<close>, \<^verbatim>\<open>is_getflag_requested\<close> and the
  submitter.  \<^verbatim>\<open>str.strip\<close>, \<^verbatim>\<open>repr\<close> and the constant \<^verbatim>\<open>GETFLAG_CODE_EVAL\<close> are
  parameters.
\<close>

datatype 'h parsed_command =
    Returned string "'h submitter_object" "log_level list"
  | Generated "string option" bool bool "'h submitter_object"

definition parse_command ::
  "(string \<Rightarrow> string) \<Rightarrow> (string \<Rightarrow> string) \<Rightarrow> string \<Rightarrow>
   (goal \<Rightarrow> string option \<times> bool) \<Rightarrow> string \<Rightarrow> 'h submitter_object \<Rightarrow>
   error + 'h parsed_command" where
  "parse_command strip repr GETFLAG_CODE_EVAL generate cmd submitter =
     (case cmd of
        [] \<Rightarrow> Inl IndexError
      | c # rest \<Rightarrow>
          if c = CHR ''@'' then
            (let cmd = rest in
             if prefix ''get-config'' cmd then
               (case generate CONFIG of
                  (payload, will_print) \<Rightarrow> Inr (Generated payload will_print False submitter))
             else if prefix ''findflag'' cmd then
               (if \<not> customizable submitter then Inr (Returned [] submitter [WARNING])
                else (let submitter = set_extra_param submitter ''eval_this'' GETFLAG_CODE_EVAL
                      in (case generate
                                 (EVAL (Access ITEM
                                          (Access ATTRIBUTE (FLASK_CONTEXT_VAR ''request'')
                                             ''values'')
                                          ''eval_this'')) of
                            (payload, will_print) \<Rightarrow>
                              Inr (Generated payload will_print True submitter))))
             else if prefix ''eval'' cmd then
               (case generate (EVAL (STRING (strip (drop 4 cmd)))) of
                  (payload, will_print) \<Rightarrow> Inr (Generated payload will_print False submitter))
             else if prefix ''ls'' cmd then
               (let cmd = strip cmd in
                if length cmd = 2 then
                  (case generate (EVAL (STRING ''__import__('os').listdir()'')) of
                     (payload, will_print) \<Rightarrow>
                       Inr (Generated payload will_print False submitter))
                else
                  (case generate
                          (EVAL (STRING (''__import__('os').listdir(''
                                           @ repr (strip (drop 2 cmd)) @ '')''))) of
                     (payload, will_print) \<Rightarrow>
                       Inr (Generated payload will_print False submitter)))
             else if prefix ''cat'' cmd then
               (let filepath = strip (drop 3 cmd) in
                case generate (EVAL (STRING (''open('' @ repr filepath @ '', 'r').read()''))) of
                  (payload, will_print) \<Rightarrow> Inr (Generated payload will_print False submitter))
             else if prefix ''exec'' cmd then
               (let statements = strip (drop 4 cmd) in
                case generate (EVAL (STRING (''exec('' @ repr statements @ '')''))) of
                  (payload, will_print) \<Rightarrow> Inr (Generated payload will_print False submitter))
             else Inr (Returned [] submitter [INFO]))
          else
            (case generate (OS_POPEN_READ cmd) of
               (payload, will_print) \<Rightarrow> Inr (Generated payload will_print False submitter)))"

text \<open>
  \<^verbatim>\<open>do_submit_cmdexec\<close> returns the echoed text, the submitter, the history and the log;
  \<^verbatim>\<open>parse_getflag_info\<close> and \<^verbatim>\<open>pformat\<close> are parameters.
\<close>

definition do_submit_cmdexec ::
  "(string \<Rightarrow> string) \<Rightarrow> (string \<Rightarrow> string) \<Rightarrow> string \<Rightarrow>
   (string \<Rightarrow> string list option) \<Rightarrow> (string list \<Rightarrow> string) \<Rightarrow>
   (goal \<Rightarrow> string option \<times> bool) \<Rightarrow> string \<Rightarrow> 'h submitter_object \<Rightarrow> 'h \<Rightarrow>
   error + (string \<times> 'h submitter_object \<times> 'h \<times> log_level list)" where
  "do_submit_cmdexec strip repr GETFLAG_CODE_EVAL parse_getflag_info pformat generate
     cmd submitter h =
     (case parse_command strip repr GETFLAG_CODE_EVAL generate cmd submitter of
        Inl e \<Rightarrow> Inl e
      | Inr (Returned text submitter log) \<Rightarrow> Inr (text, submitter, h, log)
      | Inr (Generated payload will_print is_getflag_requested submitter) \<Rightarrow>
          (case payload of
             None \<Rightarrow>
               (let log = [WARNING] in
                if customizable submitter then
                  (case unset_extra_param submitter ''eval_this'' of
                     Inl e \<Rightarrow> Inl e
                   | Inr submitter \<Rightarrow> Inr ([], submitter, h, log))
                else Inr ([], submitter, h, log))
           | Some payload \<Rightarrow>
               (let log = [INFO] @ (if \<not> will_print then [WARNING] else []) in
                case submit_of submitter (extra_params submitter) payload h of
                  Inl e \<Rightarrow> Inl e
                | Inr (None, h') \<Rightarrow> Inl AssertionError
                | Inr (Some result, h') \<Rightarrow>
                    if is_getflag_requested then
                      (let flag_data = parse_getflag_info (response_text result) in
                       case (if customizable submitter
                             then unset_extra_param submitter ''eval_this''
                             else Inr submitter) of
                         Inl e \<Rightarrow> Inl e
                       | Inr submitter \<Rightarrow>
                           (case flag_data of
                              None \<Rightarrow> Inr (''GETFLAG_FAILED'', submitter, h', log)
                            | Some flags \<Rightarrow>
                                if flags = []
                                then Inr (''GETFLAG_FAILED'', submitter, h', log)
                                else Inr (strip (pformat flags), submitter, h', log)))
                    else Inr (response_text result, submitter, h', log))))"

section \<open>The resolver's rendering of a candidate\<close>

text \<open>
  Modelled from the spec: the rendering of a candidate's fragments by the resolver of
  \<^verbatim>\<open>payload_gen.py\<close>, which is not among the sources.  Section 4.2, step 3 of the spec:
  literal text is emitted as it is (no keyword of a blocklist is taken to meet it, so the
  keyword-evasion strategy of section 4.3 does not apply); an embedded requirement is
  resolved recursively and its failure fails the candidate; for an Enclose-If-Needed
  fragment the precedence of the embedded candidate is compared with the required
  precedence and the rendering is wrapped in explicit grouping syntax only if it is
  lower; of ordered alternatives the first that fully resolves is used, and the candidate
  fails if none does; a whitespace marker is replaced by a whitespace rendering.  The
  Unsatisfiable marker fails.  The resolution of an embedded requirement, which gives
  the precedence of the candidate that rendered it and its text, or fails, is the
  parameter \<open>resolve\<close>; the grouping syntax is the parameter \<open>enclose\<close> and the chosen
  whitespace rendering the parameter \<open>whitespace\<close>.
\<close>

type_synonym resolver = "target \<Rightarrow> (int \<times> string) option"

fun render_target :: "(string \<Rightarrow> string) \<Rightarrow> string \<Rightarrow> resolver \<Rightarrow> target \<Rightarrow> string option"
  and render_targets ::
    "(string \<Rightarrow> string) \<Rightarrow> string \<Rightarrow> resolver \<Rightarrow> target list \<Rightarrow> string option"
  and render_alternatives ::
    "(string \<Rightarrow> string) \<Rightarrow> string \<Rightarrow> resolver \<Rightarrow> target list list \<Rightarrow> string option"
where
  "render_target enclose whitespace resolve (LITERAL s) = Some s"
| "render_target enclose whitespace resolve WHITESPACE = Some whitespace"
| "render_target enclose whitespace resolve UNSATISFIED = None"
| "render_target enclose whitespace resolve (ENCLOSE_UNDER required sub) =
     (case resolve sub of
        None \<Rightarrow> None
      | Some (p, s) \<Rightarrow> Some (if p < required then enclose s else s))"
| "render_target enclose whitespace resolve (ONEOF alternatives) =
     render_alternatives enclose whitespace resolve alternatives"
| "render_target enclose whitespace resolve (EXPRESSION p targets) =
     render_targets enclose whitespace resolve targets"
| "render_target enclose whitespace resolve (STRING s) = map_option snd (resolve (STRING s))"
| "render_target enclose whitespace resolve (INTEGER i) = map_option snd (resolve (INTEGER i))"
| "render_target enclose whitespace resolve (WRAP targets) =
     map_option snd (resolve (WRAP targets))"
| "render_target enclose whitespace resolve (Access t obj name) =
     map_option snd (resolve (Access t obj name))"
| "render_target enclose whitespace resolve (FUNCTION_CALL f args) =
     map_option snd (resolve (FUNCTION_CALL f args))"
| "render_target enclose whitespace resolve (CHAINED_ATTRIBUTE_ITEM obj steps) =
     map_option snd (resolve (CHAINED_ATTRIBUTE_ITEM obj steps))"
| "render_target enclose whitespace resolve (FLASK_CONTEXT_VAR name) =
     map_option snd (resolve (FLASK_CONTEXT_VAR name))"
| "render_target enclose whitespace resolve (Requirement kind args) =
     map_option snd (resolve (Requirement kind args))"
| "render_targets enclose whitespace resolve [] = Some []"
| "render_targets enclose whitespace resolve (t # ts) =
     (case render_target enclose whitespace resolve t of
        None \<Rightarrow> None
      | Some s \<Rightarrow>
          (case render_targets enclose whitespace resolve ts of
             None \<Rightarrow> None
           | Some r \<Rightarrow> Some (s @ r)))"
| "render_alternatives enclose whitespace resolve [] = None"
| "render_alternatives enclose whitespace resolve (alternative # alternatives) =
     (case render_targets enclose whitespace resolve alternative of
        Some s \<Rightarrow> Some s
      | None \<Rightarrow> render_alternatives enclose whitespace resolve alternatives)"

text \<open>
  The Enclose-If-Needed fragments of a target, each with its required precedence and the
  requirement it embeds.
\<close>

fun enclosed :: "target \<Rightarrow> (int \<times> target) list" where
  "enclosed (ENCLOSE_UNDER required sub) = [(required, sub)]"
| "enclosed (EXPRESSION p targets) = concat (map enclosed targets)"
| "enclosed (ONEOF alternatives) =
     concat (map (\<lambda>alternative. concat (map enclosed alternative)) alternatives)"
| "enclosed t = []"

text \<open>
  The rules of \<^verbatim>\<open>get_attritem.py\<close> that embed the object they access (for the function
  call rules the attribute that is called, for the class rules the class of the object)
  in an Enclose-If-Needed fragment.
\<close>

definition enclosing_rules ::
  "precedence_table \<Rightarrow> 'c \<Rightarrow> target \<Rightarrow> string \<Rightarrow> target list list" where
  "enclosing_rules precedence context obj_req name =
     [gen_attribute_normal1 precedence context obj_req name,
      gen_attribute_normal2 precedence context obj_req name,
      gen_attribute_attrfilter precedence context obj_req name,
      gen_attribute_attrfilter2 precedence context obj_req name,
      gen_item_normal1 precedence context obj_req name,
      gen_item_normal2 precedence context obj_req name,
      gen_item_getfunc2 precedence context obj_req name,
      gen_item_dunderfunc2 precedence context obj_req name,
      gen_class_attribute_literal precedence context obj_req name,
      gen_class_attribute_attrfilter precedence context obj_req name,
      gen_class_attribute_attrfilter2 precedence context obj_req name]"

section \<open>Properties of the attribute and item rules\<close>

text \<open>
  C2.  Claim: for every name that is not entirely of the form \<^verbatim>\<open>[A-Za-z_][A-Za-z0-9_]*\<close>
  the dotted-access rules \<^verbatim>\<open>gen_attribute_normal1\<close> and \<^verbatim>\<open>gen_item_normal1\<close> return the
  single Unsatisfiable candidate.  The code tests the name with \<^verbatim>\<open>re.match\<close>, which only
  looks at the start of the name: the name \<^verbatim>\<open>a-b\<close> is not an identifier, and both rules
  emit the dotted access \<^verbatim>\<open>.a-b\<close> for it.
\<close>

theorem dotted_rules_accept_illegal_name:
  "\<not> spec_valid_identifier ''a-b'' \<and>
   gen_attribute_normal1 precedence context obj_req ''a-b'' =
     [EXPRESSION (precedence ''attribute'')
        [ENCLOSE_UNDER (precedence ''attribute'') obj_req, LITERAL ''.'', LITERAL ''a-b'']] \<and>
   gen_attribute_normal1 precedence context obj_req ''a-b'' \<noteq> [UNSATISFIED] \<and>
   gen_item_normal1 precedence context obj_req ''a-b'' =
     [EXPRESSION (precedence ''item'')
        [ENCLOSE_UNDER (precedence ''item'') obj_req, LITERAL ''.'', LITERAL ''a-b'']] \<and>
   gen_item_normal1 precedence context obj_req ''a-b'' \<noteq> [UNSATISFIED]"
  by (simp add: spec_valid_identifier_def gen_attribute_normal1_def gen_item_normal1_def
        re_match_name_def is_name_start_def is_name_char_def)

text \<open>
  What the dotted-access rules do decline: a name that is empty or whose first character
  is outside \<^verbatim>\<open>[A-Za-z_]\<close>.
\<close>

lemma dotted_rules_decline_iff:
  "(gen_attribute_normal1 precedence context obj_req name = [UNSATISFIED]) =
     (name = [] \<or> \<not> is_name_start (hd name))"
  "(gen_item_normal1 precedence context obj_req name = [UNSATISFIED]) =
     (name = [] \<or> \<not> is_name_start (hd name))"
  by (cases name; simp add: gen_attribute_normal1_def gen_item_normal1_def re_match_name_def)+

text \<open>
  C4.  \<^verbatim>\<open>gen_chained_attribute_item_normal\<close> returns the object requirement as its only
  candidate when there is no step; with steps it returns one candidate, the chained
  requirement whose object is the first step applied to the object and whose steps are
  the remaining ones; unfolding it to the end gives the left fold of the steps over the
  object.
\<close>

theorem chained_access_is_left_fold:
  "gen_chained_attribute_item_normal context obj_req [] = [obj_req] \<and>
   gen_chained_attribute_item_normal context obj_req ((req_type, req_name) # other_req) =
     [CHAINED_ATTRIBUTE_ITEM (Access req_type obj_req req_name) other_req] \<and>
   unfold_chained context obj_req steps =
     Some (foldl (\<lambda>obj (req_type, req_name). Access req_type obj req_name) obj_req steps)"
proof -
  have "unfold_chained context obj steps =
          Some (foldl (\<lambda>obj (req_type, req_name). Access req_type obj req_name) obj steps)"
    for obj
  proof (induction steps arbitrary: obj)
    case Nil
    show ?case
      by (simp add: gen_chained_attribute_item_normal_def)
  next
    case (Cons step steps)
    then show ?case
      by (simp add: gen_chained_attribute_item_normal_def split: prod.splits)
  qed
  then show ?thesis
    by (simp add: gen_chained_attribute_item_normal_def)
qed

text \<open>
  C10.  \<^verbatim>\<open>gen_attribute_map3\<close> returns the Unsatisfiable candidate exactly when the name
  is longer than 4 characters and otherwise an expression candidate;
  \<^verbatim>\<open>gen_attribute_map4\<close> returns the Unsatisfiable candidate exactly when the name is
  shorter than 4 characters and otherwise an expression candidate.  So for every name one
  of the two rules emits an expression candidate, and both do at length 4.
\<close>

theorem chunk_rules_cover_every_name:
  "((gen_attribute_map3 from_pattern precedence context obj_req attr_name
       = [UNSATISFIED]) = (length attr_name > 4)) \<and>
   (length attr_name \<le> 4 \<longrightarrow>
      (\<exists>p ts. gen_attribute_map3 from_pattern precedence context obj_req attr_name
                = [EXPRESSION p ts])) \<and>
   ((gen_attribute_map4 from_pattern precedence context obj_req attr_name
       = [UNSATISFIED]) = (length attr_name < 4)) \<and>
   (4 \<le> length attr_name \<longrightarrow>
      (\<exists>p ts. gen_attribute_map4 from_pattern precedence context obj_req attr_name
                = [EXPRESSION p ts])) \<and>
   (gen_attribute_map3 from_pattern precedence context obj_req attr_name
       \<noteq> [UNSATISFIED] \<or>
    gen_attribute_map4 from_pattern precedence context obj_req attr_name
       \<noteq> [UNSATISFIED]) \<and>
   (length attr_name = 4 \<longrightarrow>
      gen_attribute_map3 from_pattern precedence context obj_req attr_name
        \<noteq> [UNSATISFIED] \<and>
      gen_attribute_map4 from_pattern precedence context obj_req attr_name
        \<noteq> [UNSATISFIED])"
  by (simp add: gen_attribute_map3_def gen_attribute_map4_def)

theorem chunk_rules_cover_every_name_witness:
  "length ''attr'' = 4 \<and>
   gen_attribute_map3 (\<lambda>pattern mapping. []) (\<lambda>name. 0) () (LITERAL ''obj'') ''attr''
     \<noteq> [UNSATISFIED] \<and>
   gen_attribute_map4 (\<lambda>pattern mapping. []) (\<lambda>name. 0) () (LITERAL ''obj'') ''attr''
     \<noteq> [UNSATISFIED]"
  using chunk_rules_cover_every_name
    [of "\<lambda>pattern mapping. []" "\<lambda>name. 0" "()" "LITERAL ''obj''" "''attr''"]
  by simp

section \<open>Properties of update_content_length\<close>

subsection \<open>The last occurrence of the separator\<close>






subsection \<open>The literal and the characters it can match\<close>




lemma ascii_lower_cases:
  "ascii_lower c = c \<or> (97 \<le> (of_char (ascii_lower c) :: nat) \<and> (of_char (ascii_lower c) :: nat) \<le> 122)"
  by (auto simp: ascii_lower_def Let_def)

lemma ascii_lower_literal: "map ascii_lower ''Content-Length:'' = ''content-length:''"
  by code_simp

lemma literal_length: "length ''Content-Length:'' = 15"
  by simp

lemma match_lower:
  "match_ignorecase ''Content-Length:'' t \<Longrightarrow>
     15 \<le> length t \<and> map ascii_lower (take 15 t) = ''content-length:''"
  unfolding match_ignorecase_def literal_length ascii_lower_literal .

lemma not_letter_fixed:
  "\<not> (97 \<le> (of_char x :: nat) \<and> (of_char x :: nat) \<le> 122) \<Longrightarrow> ascii_lower c = x \<Longrightarrow> c = x"
  using ascii_lower_cases [of c] by auto



lemma match_nth:
  assumes "match_ignorecase ''Content-Length:'' t" and "k < 15"
  shows "ascii_lower (t ! k) = ''content-length:'' ! k"
proof -
  from match_lower [OF assms(1)] have len: "15 \<le> length t"
    and m: "map ascii_lower (take 15 t) = ''content-length:''" by auto
  have "ascii_lower (t ! k) = map ascii_lower (take 15 t) ! k"
    using assms(2) len by simp
  then show ?thesis unfolding m .
qed




subsection \<open>What the substitution leaves behind\<close>





subsection \<open>The lines of a header\<close>












subsection \<open>The substitution, line by line\<close>







subsection \<open>The request that is returned\<close>









section \<open>Properties of the submitters\<close>

lemma foldl_add_tamperer: "foldl add_tamperer ts us = ts @ us"
  by (induction us arbitrary: ts) (simp_all add: add_tamperer_def)

lemma apply_tamperers_total:
  "apply_tamperers (map (\<lambda>f. Inr \<circ> f) fs) payload = Inr (fold (\<lambda>f p. f p) fs payload)"
  by (induction fs arbitrary: payload) simp_all

text \<open>
  C6.  \<^verbatim>\<open>BaseSubmitter.submit\<close> applies the tamperers in the order in which
  \<^verbatim>\<open>add_tamperer\<close> added them, each to the result of the one before, hands the result to
  \<^verbatim>\<open>submit_raw\<close>, returns \<^verbatim>\<open>None\<close> exactly when \<^verbatim>\<open>submit_raw\<close> does, and otherwise
  returns the status code of \<^verbatim>\<open>submit_raw\<close>'s response with its text unescaped.  The
  tamperers are functions from strings to strings, as the type \<^verbatim>\<open>Tamperer\<close> says.
\<close>

theorem submit_applies_tamperers_in_order:
  "submit unescape (foldl add_tamperer [] (map (\<lambda>f. Inr \<circ> f) fs)) submit_raw payload h =
     (case submit_raw (fold (\<lambda>f p. f p) fs payload) h of
        (None, h') \<Rightarrow> Inr (None, h')
      | (Some resp, h') \<Rightarrow>
          Inr (Some (HTTPResponse (status_code resp) (unescape (response_text resp))), h')) \<and>
   ((\<exists>h'. submit unescape (foldl add_tamperer [] (map (\<lambda>f. Inr \<circ> f) fs)) submit_raw payload h
           = Inr (None, h'))
      = (fst (submit_raw (fold (\<lambda>f p. f p) fs payload) h) = None))"
  by (cases "submit_raw (fold (\<lambda>f p. f p) fs payload) h")
     (auto simp: submit_def foldl_add_tamperer apply_tamperers_total split: option.splits)

text \<open>A tamperer that raises ends the submission before \<^verbatim>\<open>submit_raw\<close> is called.\<close>

lemma submit_raises:
  "apply_tamperers tamperers payload = Inl e \<Longrightarrow>
     submit unescape tamperers submit_raw payload h = Inl e"
  by (simp add: submit_def)

text \<open>
  C9.  \<^verbatim>\<open>PathSubmitter.submit_raw\<close> returns \<^verbatim>\<open>None\<close> and leaves the history as it is
  (no request, no callback) when the payload contains \<^verbatim>\<open>/\<close>, \<^verbatim>\<open>..\<close>, a space or
  \<^verbatim>\<open>%\<close>; for every other payload the history grows by exactly one request, a
  \<^verbatim>\<open>GET\<close> of the stored URL followed by the quoted payload, and the call of the
  callback.  The stored URL is the URL given to the constructor, with \<^verbatim>\<open>/\<close> appended
  when it does not end with one.
\<close>

theorem path_submitter_refuses_or_requests_once:
  "(sublist ''/'' raw_payload \<or> sublist ''..'' raw_payload \<or> sublist '' '' raw_payload \<or>
    sublist ''%'' raw_payload \<longrightarrow>
      PathSubmitter_submit_raw quote req self raw_payload h = (None, h)) \<and>
   (\<not> (sublist ''/'' raw_payload \<or> sublist ''..'' raw_payload \<or> sublist '' '' raw_payload \<or>
       sublist ''%'' raw_payload) \<longrightarrow>
      (\<exists>result.
         PathSubmitter_submit_raw quote req self raw_payload h =
           (result,
            h @ [Request (HTTPRequest ''GET'' (path_url self @ quote raw_payload)
                            (path_extra_params self) None),
                 Callback ''path'' raw_payload
                   (req h (HTTPRequest ''GET'' (path_url self @ quote raw_payload)
                             (path_extra_params self) None))]))) \<and>
   path_url (PathSubmitter_init url tamperers) = (if suffix ''/'' url then url else url @ ''/'')"
  by (auto simp: PathSubmitter_submit_raw_def PathSubmitter_init_def Let_def
           split: option.splits)

theorem path_submitter_refuses_or_requests_once_witness:
  "sublist ''/'' ''a/b'' \<and>
   PathSubmitter_submit_raw (\<lambda>s. s) (\<lambda>h r. None) (PathSubmitter_init ''http://t'' []) ''a/b'' []
     = (None, []) \<and>
   \<not> (sublist ''/'' ''ab'' \<or> sublist ''..'' ''ab'' \<or> sublist '' '' ''ab'' \<or> sublist ''%'' ''ab'') \<and>
   (\<exists>result.
      PathSubmitter_submit_raw (\<lambda>s. s) (\<lambda>h r. None) (PathSubmitter_init ''http://t'' []) ''ab'' []
        = (result,
           [Request (HTTPRequest ''GET'' ''http://t/ab'' Map.empty None),
            Callback ''path'' ''ab'' None]))"
proof -
  have a: "sublist ''/'' ''a/b''"
    by code_simp
  have b: "\<not> (sublist ''/'' ''ab'' \<or> sublist ''..'' ''ab'' \<or> sublist '' '' ''ab'' \<or>
      sublist ''%'' ''ab'')"
    by code_simp
  have u: "path_url (PathSubmitter_init ''http://t'' []) = ''http://t/''"
    by code_simp
  have p: "path_extra_params (PathSubmitter_init ''http://t'' []) = Map.empty"
    by (simp add: PathSubmitter_init_def)
  from path_submitter_refuses_or_requests_once
    [of "''a/b''" "\<lambda>s. s" "\<lambda>h r. None" "PathSubmitter_init ''http://t'' []" "[]"] a
  have 1: "PathSubmitter_submit_raw (\<lambda>s. s) (\<lambda>h r. None)
      (PathSubmitter_init ''http://t'' []) ''a/b'' [] = (None, [])"
    by blast
  from path_submitter_refuses_or_requests_once
    [of "''ab''" "\<lambda>s. s" "\<lambda>h r. None" "PathSubmitter_init ''http://t'' []" "[]"] b
  have 2: "\<exists>result.
      PathSubmitter_submit_raw (\<lambda>s. s) (\<lambda>h r. None) (PathSubmitter_init ''http://t'' []) ''ab'' []
        = (result,
           [] @ [Request (HTTPRequest ''GET''
                   (path_url (PathSubmitter_init ''http://t'' []) @ ''ab'')
                   (path_extra_params (PathSubmitter_init ''http://t'' [])) None),
            Callback ''path'' ''ab'' None])"
    by blast
  from a b 1 2 [unfolded u p] show ?thesis
    by simp
qed

section \<open>Properties of the command line\<close>

lemma set_not_none: "set (not_none results) = {r. Some r \<in> set results}"
  by (induction results rule: not_none.induct) auto

lemma has_response_iff:
  "has_response marker result1 musterror_result =
     ((\<exists>r1. result1 = Some r1 \<and> sublist marker (response_text r1)) \<and>
      (\<exists>r. Some r \<in> set musterror_result \<and> \<not> sublist marker (response_text r)))"
  by (cases result1) (auto simp: has_response_def list_ex_iff set_not_none)

lemma is_form_has_response_from_True:
  "(\<exists>h'. is_form_has_response_from unescape shell fill_form req markers url form tamper_cmd
            inputs n h = Inr (True, h'))
     = (\<exists>(marker, result1, musterror_result)
          \<in> set (field_probes unescape shell fill_form req markers url form tamper_cmd
                   inputs n h).
          has_response marker result1 musterror_result)"
proof (induction inputs arbitrary: n h)
  case Nil
  show ?case by simp
next
  case (Cons input_field inputs)
  show ?case
  proof (cases "probe_field unescape shell fill_form req url form tamper_cmd input_field
                  (markers n) h")
    case (Inl e)
    then show ?thesis by simp
  next
    case (Inr p)
    obtain result1 musterror_result h' where p: "p = (result1, musterror_result, h')"
      by (cases p)
    show ?thesis
    proof (cases "has_response (markers n) result1 musterror_result")
      case True
      with Inr p show ?thesis by simp
    next
      case False
      with Inr p Cons.IH [of "Suc n" h'] show ?thesis by simp
    qed
  qed
qed

lemma is_form_has_response_from_False:
  "(\<exists>h'. is_form_has_response_from unescape shell fill_form req markers url form tamper_cmd
            inputs n h = Inr (False, h'))
     = (length (field_probes unescape shell fill_form req markers url form tamper_cmd
                  inputs n h) = length inputs \<and>
        \<not> (\<exists>(marker, result1, musterror_result)
             \<in> set (field_probes unescape shell fill_form req markers url form tamper_cmd
                      inputs n h).
             has_response marker result1 musterror_result))"
proof (induction inputs arbitrary: n h)
  case Nil
  show ?case by simp
next
  case (Cons input_field inputs)
  show ?case
  proof (cases "probe_field unescape shell fill_form req url form tamper_cmd input_field
                  (markers n) h")
    case (Inl e)
    then show ?thesis by simp
  next
    case (Inr p)
    obtain result1 musterror_result h' where p: "p = (result1, musterror_result, h')"
      by (cases p)
    show ?thesis
    proof (cases "has_response (markers n) result1 musterror_result")
      case True
      with Inr p show ?thesis by simp
    next
      case False
      with Inr p Cons.IH [of "Suc n" h'] show ?thesis by simp
    qed
  qed
qed

lemma field_submit:
  "submit unescape
     (form_tamperers
        (case tamper_cmd of
           None \<Rightarrow> FormSubmitter url form input_field Map.empty []
         | Some cmd \<Rightarrow>
             if cmd = [] then FormSubmitter url form input_field Map.empty []
             else FormSubmitter url form input_field Map.empty
                    (add_tamperer (form_tamperers (FormSubmitter url form input_field Map.empty []))
                       (shell_tamperer shell cmd))))
     (FormSubmitter_submit_raw fill_form req
        (case tamper_cmd of
           None \<Rightarrow> FormSubmitter url form input_field Map.empty []
         | Some cmd \<Rightarrow>
             if cmd = [] then FormSubmitter url form input_field Map.empty []
             else FormSubmitter url form input_field Map.empty
                    (add_tamperer (form_tamperers (FormSubmitter url form input_field Map.empty []))
                       (shell_tamperer shell cmd))))
     payload h =
   (case (case tamper_cmd of
            None \<Rightarrow> Inr payload
          | Some cmd \<Rightarrow>
              if cmd = [] then Inr payload
              else (case shell cmd payload of
                      (ret, out) \<Rightarrow> if ret \<noteq> 0 then Inl ValueError else Inr out)) of
      Inl e \<Rightarrow> Inl e
    | Inr raw \<Rightarrow>
        Inr (map_option (\<lambda>r. HTTPResponse (status_code r) (unescape (response_text r)))
               (req h (fill_form url form [input_field \<mapsto> raw] Map.empty)),
             h @ [Request (fill_form url form [input_field \<mapsto> raw] Map.empty),
                  Callback ''form'' raw
                    (req h (fill_form url form [input_field \<mapsto> raw] Map.empty))]))"
  by (auto simp: submit_def FormSubmitter_submit_raw_def shell_tamperer_def add_tamperer_def
        Let_def split: option.splits prod.splits)

lemma submit_each_three:
  "submit_each sub [a, b, c] h1 =
     (case sub a h1 of
        Inl e \<Rightarrow> Inl e
      | Inr (ra, h2) \<Rightarrow>
          (case sub b h2 of
             Inl e \<Rightarrow> Inl e
           | Inr (rb, h3) \<Rightarrow>
               (case sub c h3 of
                  Inl e \<Rightarrow> Inl e
                | Inr (rc, h4) \<Rightarrow> Inr ([ra, rb, rc], h4))))"
  by (simp split: sum.splits prod.splits)

lemma probe_field_submissions:
  "probe_field unescape shell fill_form req url form tamper_cmd input_field marker h =
     (let sub = (\<lambda>payload h.
            case (case tamper_cmd of
                    None \<Rightarrow> Inr payload
                  | Some cmd \<Rightarrow>
                      if cmd = [] then Inr payload
                      else (case shell cmd payload of
                              (ret, out) \<Rightarrow> if ret \<noteq> 0 then Inl ValueError else Inr out)) of
              Inl e \<Rightarrow> Inl e
            | Inr raw \<Rightarrow>
                Inr (map_option
                       (\<lambda>r. HTTPResponse (status_code r) (unescape (response_text r)))
                       (req h (fill_form url form [input_field \<mapsto> raw] Map.empty)),
                     h @ [Request (fill_form url form [input_field \<mapsto> raw] Map.empty),
                          Callback ''form'' raw
                            (req h (fill_form url form [input_field \<mapsto> raw] Map.empty))]))
      in (case sub marker h of
            Inl e \<Rightarrow> Inl e
          | Inr (result1, h1) \<Rightarrow>
              (case sub (''{{'' @ marker) h1 of
                 Inl e \<Rightarrow> Inl e
               | Inr (ra, h2) \<Rightarrow>
                   (case sub (''{%'' @ marker) h2 of
                      Inl e \<Rightarrow> Inl e
                    | Inr (rb, h3) \<Rightarrow>
                        (case sub (''{#'' @ marker) h3 of
                           Inl e \<Rightarrow> Inl e
                         | Inr (rc, h4) \<Rightarrow> Inr (result1, [ra, rb, rc], h4))))))"
  unfolding probe_field_def Let_def field_submit list.map submit_each_three
  by (simp split: sum.splits prod.splits)

lemma field_probes_members:
  "(m, r1, me) \<in> set (field_probes unescape shell fill_form req markers url form tamper_cmd
                         inputs n h) \<Longrightarrow>
     \<exists>i<length inputs. \<exists>h0 h1.
        m = markers (n + i) \<and>
        probe_field unescape shell fill_form req url form tamper_cmd (inputs ! i)
          (markers (n + i)) h0 = Inr (r1, me, h1)"
proof (induction inputs arbitrary: n h)
  case Nil
  then show ?case by simp
next
  case (Cons input_field inputs)
  show ?case
  proof (cases "probe_field unescape shell fill_form req url form tamper_cmd input_field
                  (markers n) h")
    case (Inl e)
    with Cons.prems show ?thesis by simp
  next
    case (Inr res)
    obtain result1 musterror_result h' where res: "res = (result1, musterror_result, h')"
      by (cases res) auto
    from Cons.prems Inr res
    have "(m, r1, me) = (markers n, result1, musterror_result) \<or>
          (m, r1, me) \<in> set (field_probes unescape shell fill_form req markers url form
                               tamper_cmd inputs (Suc n) h')"
      by simp
    then show ?thesis
    proof
      assume "(m, r1, me) = (markers n, result1, musterror_result)"
      with Inr res have "m = markers (n + 0) \<and>
        probe_field unescape shell fill_form req url form tamper_cmd
          ((input_field # inputs) ! 0) (markers (n + 0)) h = Inr (r1, me, h')"
        by simp
      then show ?thesis by (intro exI [of _ 0]) auto
    next
      assume "(m, r1, me) \<in> set (field_probes unescape shell fill_form req markers url form
                               tamper_cmd inputs (Suc n) h')"
      from Cons.IH [OF this] obtain i h0 h1 where i: "i < length inputs"
        and m: "m = markers (Suc n + i)"
        and p: "probe_field unescape shell fill_form req url form tamper_cmd (inputs ! i)
          (markers (Suc n + i)) h0 = Inr (r1, me, h1)"
        by blast
      have "Suc i < length (input_field # inputs) \<and> m = markers (n + Suc i) \<and>
        probe_field unescape shell fill_form req url form tamper_cmd
          ((input_field # inputs) ! Suc i) (markers (n + Suc i)) h0 = Inr (r1, me, h1)"
        using i m p by simp
      then show ?thesis by blast
    qed
  qed
qed

text \<open>
  C5.  For every input field \<^verbatim>\<open>is_form_has_response\<close> makes four submissions through a
  \<^verbatim>\<open>FormSubmitter\<close> for that field, one after the other: the marker, and the marker
  behind each of \<^verbatim>\<open>{{\<close>, \<^verbatim>\<open>{%\<close> and \<^verbatim>\<open>{#\<close>.  A submission passes the payload through
  the shell tamperer when a tamper command is given, asks the requester for the filled
  form and unescapes the text of the response.  Every probe in the list of the probes
  made is the outcome of these four submissions for one of the input fields, with the
  marker drawn for that field.  The function returns \<^verbatim>\<open>True\<close> if and only if, for some
  input field it probes, the submission of the marker yields a response whose text
  contains the marker and one of the three other submissions yields a response whose
  text does not contain the marker.  It returns \<^verbatim>\<open>False\<close> if and only if every input
  field was probed and none satisfies this; the condition is false when the marker's
  submission returns \<^verbatim>\<open>None\<close> or a text without the marker, and when all three other
  submissions return \<^verbatim>\<open>None\<close>.
\<close>

theorem is_form_has_response_iff:
  "(probe_field unescape shell fill_form req url form tamper_cmd input_field marker h =
     (let sub = (\<lambda>payload h.
            case (case tamper_cmd of
                    None \<Rightarrow> Inr payload
                  | Some cmd \<Rightarrow>
                      if cmd = [] then Inr payload
                      else (case shell cmd payload of
                              (ret, out) \<Rightarrow> if ret \<noteq> 0 then Inl ValueError else Inr out)) of
              Inl e \<Rightarrow> Inl e
            | Inr raw \<Rightarrow>
                Inr (map_option
                       (\<lambda>r. HTTPResponse (status_code r) (unescape (response_text r)))
                       (req h (fill_form url form [input_field \<mapsto> raw] Map.empty)),
                     h @ [Request (fill_form url form [input_field \<mapsto> raw] Map.empty),
                          Callback ''form'' raw
                            (req h (fill_form url form [input_field \<mapsto> raw] Map.empty))]))
      in (case sub marker h of
            Inl e \<Rightarrow> Inl e
          | Inr (result1, h1) \<Rightarrow>
              (case sub (''{{'' @ marker) h1 of
                 Inl e \<Rightarrow> Inl e
               | Inr (ra, h2) \<Rightarrow>
                   (case sub (''{%'' @ marker) h2 of
                      Inl e \<Rightarrow> Inl e
                    | Inr (rb, h3) \<Rightarrow>
                        (case sub (''{#'' @ marker) h3 of
                           Inl e \<Rightarrow> Inl e
                         | Inr (rc, h4) \<Rightarrow> Inr (result1, [ra, rb, rc], h4))))))) \<and>
   (\<forall>probe_marker probe_result1 probe_musterror.
      (probe_marker, probe_result1, probe_musterror)
        \<in> set (field_probes unescape shell fill_form req markers url form tamper_cmd
                 inputs 0 h) \<longrightarrow>
      (\<exists>i<length inputs. \<exists>h0 h1.
         probe_marker = markers i \<and>
         probe_field unescape shell fill_form req url form tamper_cmd (inputs ! i)
           (markers i) h0 = Inr (probe_result1, probe_musterror, h1))) \<and>
   ((\<exists>h'. is_form_has_response unescape shell fill_form req markers url form inputs
            tamper_cmd h = Inr (True, h'))
     = (\<exists>(marker, result1, musterror_result)
          \<in> set (field_probes unescape shell fill_form req markers url form tamper_cmd
                   inputs 0 h).
          (\<exists>r1. result1 = Some r1 \<and> sublist marker (response_text r1)) \<and>
          (\<exists>r. Some r \<in> set musterror_result \<and> \<not> sublist marker (response_text r)))) \<and>
   ((\<exists>h'. is_form_has_response unescape shell fill_form req markers url form inputs
            tamper_cmd h = Inr (False, h'))
     = (length (field_probes unescape shell fill_form req markers url form tamper_cmd
                  inputs 0 h) = length inputs \<and>
        \<not> (\<exists>(marker, result1, musterror_result)
             \<in> set (field_probes unescape shell fill_form req markers url form tamper_cmd
                      inputs 0 h).
             (\<exists>r1. result1 = Some r1 \<and> sublist marker (response_text r1)) \<and>
             (\<exists>r. Some r \<in> set musterror_result \<and> \<not> sublist marker (response_text r))))) \<and>
   has_response marker None musterror_result = False \<and>
   has_response marker (Some r1) musterror_result =
     (sublist marker (response_text r1) \<and>
      (\<exists>r. Some r \<in> set musterror_result \<and> \<not> sublist marker (response_text r))) \<and>
   has_response marker result1 [None, None, None] = False"
proof (intro conjI)
  show "probe_field unescape shell fill_form req url form tamper_cmd input_field marker h =
     (let sub = (\<lambda>payload h.
            case (case tamper_cmd of
                    None \<Rightarrow> Inr payload
                  | Some cmd \<Rightarrow>
                      if cmd = [] then Inr payload
                      else (case shell cmd payload of
                              (ret, out) \<Rightarrow> if ret \<noteq> 0 then Inl ValueError else Inr out)) of
              Inl e \<Rightarrow> Inl e
            | Inr raw \<Rightarrow>
                Inr (map_option
                       (\<lambda>r. HTTPResponse (status_code r) (unescape (response_text r)))
                       (req h (fill_form url form [input_field \<mapsto> raw] Map.empty)),
                     h @ [Request (fill_form url form [input_field \<mapsto> raw] Map.empty),
                          Callback ''form'' raw
                            (req h (fill_form url form [input_field \<mapsto> raw] Map.empty))]))
      in (case sub marker h of
            Inl e \<Rightarrow> Inl e
          | Inr (result1, h1) \<Rightarrow>
              (case sub (''{{'' @ marker) h1 of
                 Inl e \<Rightarrow> Inl e
               | Inr (ra, h2) \<Rightarrow>
                   (case sub (''{%'' @ marker) h2 of
                      Inl e \<Rightarrow> Inl e
                    | Inr (rb, h3) \<Rightarrow>
                        (case sub (''{#'' @ marker) h3 of
                           Inl e \<Rightarrow> Inl e
                         | Inr (rc, h4) \<Rightarrow> Inr (result1, [ra, rb, rc], h4))))))"
    by (rule probe_field_submissions)
  show "\<forall>probe_marker probe_result1 probe_musterror.
      (probe_marker, probe_result1, probe_musterror)
        \<in> set (field_probes unescape shell fill_form req markers url form tamper_cmd
                 inputs 0 h) \<longrightarrow>
      (\<exists>i<length inputs. \<exists>h0 h1.
         probe_marker = markers i \<and>
         probe_field unescape shell fill_form req url form tamper_cmd (inputs ! i)
           (markers i) h0 = Inr (probe_result1, probe_musterror, h1))"
  proof (intro allI impI)
    fix probe_marker probe_result1 probe_musterror
    assume "(probe_marker, probe_result1, probe_musterror)
        \<in> set (field_probes unescape shell fill_form req markers url form tamper_cmd
                 inputs 0 h)"
    from field_probes_members [OF this]
    show "\<exists>i<length inputs. \<exists>h0 h1.
         probe_marker = markers i \<and>
         probe_field unescape shell fill_form req url form tamper_cmd (inputs ! i)
           (markers i) h0 = Inr (probe_result1, probe_musterror, h1)"
      by simp
  qed
qed (simp_all add: is_form_has_response_def is_form_has_response_from_True
       is_form_has_response_from_False has_response_iff)

theorem is_form_has_response_iff_witness:
  "(''abcd'', Some (HTTPResponse 200 ''abcd''),
      [Some (HTTPResponse 200 ''abcd''), Some (HTTPResponse 200 ''abcd''),
       Some (HTTPResponse 200 ''abcd'')])
     \<in> set (field_probes (\<lambda>s. s) (\<lambda>cmd payload. (0, payload))
              (\<lambda>url form params data. HTTPRequest ''POST'' url params (Some data))
              (\<lambda>h r. Some (HTTPResponse 200 ''abcd''))
              (\<lambda>n. ''abcd'') ''http://t/'' () None [''name''] 0 []) \<and>
   (\<exists>i<length [''name'']. \<exists>h0 h1.
      probe_field (\<lambda>s. s) (\<lambda>cmd payload. (0, payload))
        (\<lambda>url form params data. HTTPRequest ''POST'' url params (Some data))
        (\<lambda>h r. Some (HTTPResponse 200 ''abcd'')) ''http://t/'' () None ([''name''] ! i)
        ''abcd'' h0
      = Inr (Some (HTTPResponse 200 ''abcd''),
             [Some (HTTPResponse 200 ''abcd''), Some (HTTPResponse 200 ''abcd''),
              Some (HTTPResponse 200 ''abcd'')], h1))"
proof -
  have mem: "(''abcd'', Some (HTTPResponse 200 ''abcd''),
      [Some (HTTPResponse 200 ''abcd''), Some (HTTPResponse 200 ''abcd''),
       Some (HTTPResponse 200 ''abcd'')])
     \<in> set (field_probes (\<lambda>s. s) (\<lambda>cmd payload. (0, payload))
              (\<lambda>url form params data. HTTPRequest ''POST'' url params (Some data))
              (\<lambda>h r. Some (HTTPResponse 200 ''abcd''))
              (\<lambda>n. ''abcd'') ''http://t/'' () None [''name''] 0 [])"
    by code_simp
  from is_form_has_response_iff
         [where unescape = "\<lambda>s. s" and shell = "\<lambda>cmd payload. (0, payload)"
            and fill_form = "\<lambda>url form params data. HTTPRequest ''POST'' url params (Some data)"
            and req = "\<lambda>h r. Some (HTTPResponse 200 ''abcd'')"
            and markers = "\<lambda>n. ''abcd''" and url = "''http://t/''" and form = "()"
            and tamper_cmd = None and inputs = "[''name'']" and h = "[]",
          THEN conjunct2, THEN conjunct1, rule_format, OF mem]
  have "\<exists>i<length [''name'']. \<exists>h0 h1.
      ''abcd'' = ''abcd'' \<and>
      probe_field (\<lambda>s. s) (\<lambda>cmd payload. (0, payload))
        (\<lambda>url form params data. HTTPRequest ''POST'' url params (Some data))
        (\<lambda>h r. Some (HTTPResponse 200 ''abcd'')) ''http://t/'' () None ([''name''] ! i)
        ''abcd'' h0
      = Inr (Some (HTTPResponse 200 ''abcd''),
             [Some (HTTPResponse 200 ''abcd''), Some (HTTPResponse 200 ''abcd''),
              Some (HTTPResponse 200 ''abcd'')], h1)" .
  with mem show ?thesis
    by blast
qed

text \<open>Every probe of a field makes the three template-control submissions.\<close>

lemma probe_field_three_probes:
  "probe_field unescape shell fill_form req url form tamper_cmd input_field marker h
     = Inr (result1, musterror_result, h') \<Longrightarrow> length musterror_result = 3"
  by (auto simp: probe_field_def Let_def split: sum.splits prod.splits)

text \<open>
  C7.  Claim: when \<^verbatim>\<open>generate\<close> returns no payload, \<^verbatim>\<open>do_submit_cmdexec\<close> logs a
  warning and returns the empty string, submitting nothing and raising nothing.  For the
  command \<^verbatim>\<open>id\<close> and a submitter that is an \<^verbatim>\<open>ExtraParamAndDataCustomizable\<close> with no
  extra parameter set (a \<^verbatim>\<open>FormSubmitter\<close> as constructed), the code deletes the extra
  parameter \<^verbatim>\<open>eval_this\<close>, which only the command \<^verbatim>\<open>@findflag\<close> sets, and raises
  \<^verbatim>\<open>KeyError\<close>.  (After a submission the same deletion is guarded by
  \<^verbatim>\<open>is_getflag_requested\<close>.)
\<close>

theorem do_submit_cmdexec_raises_KeyError:
  "do_submit_cmdexec strip repr GETFLAG_CODE_EVAL parse_getflag_info pformat
     (\<lambda>goal. (None, False)) ''id'' (Submitter True Map.empty sub) h = Inl KeyError"
  by (simp add: do_submit_cmdexec_def parse_command_def unset_extra_param_def)

text \<open>
  What the code does whenever no payload was generated: nothing is submitted; the empty
  string is returned with one warning logged, unless the deletion raises.
\<close>

lemma do_submit_cmdexec_no_payload:
  assumes "parse_command strip repr GETFLAG_CODE_EVAL generate cmd submitter =
             Inr (Generated None will_print is_getflag_requested submitter')"
  shows "do_submit_cmdexec strip repr GETFLAG_CODE_EVAL parse_getflag_info pformat generate
           cmd submitter h =
         (if customizable submitter'
          then (case extra_params submitter' ''eval_this'' of
                  None \<Rightarrow> Inl KeyError
                | Some v \<Rightarrow>
                    Inr ([], Submitter True ((extra_params submitter')(''eval_this'' := None))
                               (submit_of submitter'), h, [WARNING]))
          else Inr ([], submitter', h, [WARNING]))"
  using assms
  by (simp add: do_submit_cmdexec_def unset_extra_param_def split: option.splits)

section \<open>Properties of the rendered candidates\<close>

text \<open>
  C1.  For every candidate of a rule that embeds its object in an Enclose-If-Needed
  fragment, the fragment requires the precedence level of the candidate itself, and the
  rendering of the embedded requirement is wrapped in the grouping syntax if and only if
  the precedence of its candidate is strictly lower than that level; at an equal or
  higher precedence it is left as it is.  The payloads of the dotted access, of the
  \<^verbatim>\<open>|attr\<close> filter and of the call syntax are written out.  The grouping syntax is
  taken to change the text it wraps.
\<close>

theorem enclosure_iff_lower_precedence:
  "(candidates \<in> set (enclosing_rules precedence context obj_req name) \<and>
    EXPRESSION level targets \<in> set candidates \<and>
    (required, sub) \<in> set (enclosed (EXPRESSION level targets)) \<and>
    resolve sub = Some (p, s) \<and> enclose s \<noteq> s \<longrightarrow>
      required = level \<and>
      (render_target enclose whitespace resolve (ENCLOSE_UNDER required sub)
         = Some (enclose s)) = (p < level) \<and>
      (render_target enclose whitespace resolve (ENCLOSE_UNDER required sub)
         = Some s) = (level \<le> p)) \<and>
   (re_match_name name \<noteq> None \<and> resolve obj_req = Some (p, s) \<longrightarrow>
      map (render_target enclose whitespace resolve)
        (gen_attribute_normal1 precedence context obj_req name)
      = [Some ((if p < precedence ''attribute'' then enclose s else s) @ ''.'' @ name)]) \<and>
   (resolve obj_req = Some (p, s) \<and> resolve (WRAP [STRING name]) = Some (q, w) \<longrightarrow>
      map (render_target enclose whitespace resolve)
        (gen_attribute_attrfilter precedence context obj_req name)
      = [Some ((if p < precedence ''filter'' then enclose s else s) @ ''|attr'' @ w)]) \<and>
   (resolve (Access ATTRIBUTE obj_req ''get'') = Some (p, s) \<and>
    resolve (STRING name) = Some (q, w) \<longrightarrow>
      map (render_target enclose whitespace resolve)
        (gen_item_getfunc2 precedence context obj_req name)
      = [Some ((if p < precedence ''function_call'' then enclose s else s)
               @ ''('' @ whitespace @ w @ whitespace @ '')'')])"
proof (intro conjI impI)
  assume a: "candidates \<in> set (enclosing_rules precedence context obj_req name) \<and>
    EXPRESSION level targets \<in> set candidates \<and>
    (required, sub) \<in> set (enclosed (EXPRESSION level targets)) \<and>
    resolve sub = Some (p, s) \<and> enclose s \<noteq> s"
  then have r: "resolve sub = Some (p, s)" and e: "enclose s \<noteq> s" by auto
  from a have eq: "required = level"
    by (auto simp: enclosing_rules_def gen_attribute_normal1_def gen_attribute_normal2_def
          gen_attribute_attrfilter_def gen_attribute_attrfilter2_def gen_item_normal1_def
          gen_item_normal2_def gen_item_getfunc2_def gen_item_dunderfunc2_def
          gen_class_attribute_literal_def gen_class_attribute_attrfilter_def
          gen_class_attribute_attrfilter2_def Let_def split: if_splits)
  then show "required = level" .
  from r e eq show "(render_target enclose whitespace resolve (ENCLOSE_UNDER required sub)
         = Some (enclose s)) = (p < level)"
    by auto
  from r e eq show "(render_target enclose whitespace resolve (ENCLOSE_UNDER required sub)
         = Some s) = (level \<le> p)"
    by auto
next
  assume "re_match_name name \<noteq> None \<and> resolve obj_req = Some (p, s)"
  then show "map (render_target enclose whitespace resolve)
        (gen_attribute_normal1 precedence context obj_req name)
      = [Some ((if p < precedence ''attribute'' then enclose s else s) @ ''.'' @ name)]"
    by (simp add: gen_attribute_normal1_def)
next
  assume "resolve obj_req = Some (p, s) \<and> resolve (WRAP [STRING name]) = Some (q, w)"
  then show "map (render_target enclose whitespace resolve)
        (gen_attribute_attrfilter precedence context obj_req name)
      = [Some ((if p < precedence ''filter'' then enclose s else s) @ ''|attr'' @ w)]"
    by (simp add: gen_attribute_attrfilter_def)
next
  assume "resolve (Access ATTRIBUTE obj_req ''get'') = Some (p, s) \<and>
    resolve (STRING name) = Some (q, w)"
  then show "map (render_target enclose whitespace resolve)
        (gen_item_getfunc2 precedence context obj_req name)
      = [Some ((if p < precedence ''function_call'' then enclose s else s)
               @ ''('' @ whitespace @ w @ whitespace @ '')'')]"
    by (simp add: gen_item_getfunc2_def Let_def)
qed

theorem enclosure_iff_lower_precedence_witness:
  "gen_item_getfunc2 (\<lambda>n. if n = ''function_call'' then 9 else 5) () (LITERAL ''o'') ''k''
     \<in> set (enclosing_rules (\<lambda>n. if n = ''function_call'' then 9 else 5) () (LITERAL ''o'') ''k'') \<and>
   (9, Access ATTRIBUTE (LITERAL ''o'') ''get'')
     \<in> set (concat (map enclosed
          (gen_item_getfunc2 (\<lambda>n. if n = ''function_call'' then 9 else 5) () (LITERAL ''o'')
             ''k''))) \<and>
   render_target (\<lambda>s. ''('' @ s @ '')'') '' '' (\<lambda>t. Some (5, ''a|b''))
     (ENCLOSE_UNDER 9 (Access ATTRIBUTE (LITERAL ''o'') ''get'')) = Some ''(a|b)'' \<and>
   re_match_name ''k'' \<noteq> None \<and>
   map (render_target (\<lambda>s. ''('' @ s @ '')'') '' '' (\<lambda>t. Some (5, ''a|b'')))
     (gen_attribute_normal1 (\<lambda>n. if n = ''function_call'' then 9 else 5) ()
        (LITERAL ''o'') ''k'')
     = [Some ''a|b.k''] \<and>
   map (render_target (\<lambda>s. ''('' @ s @ '')'') '' '' (\<lambda>t. Some (5, ''a|b'')))
     (gen_attribute_attrfilter (\<lambda>n. if n = ''function_call'' then 9 else 5) ()
        (LITERAL ''o'') ''k'')
     = [Some ''a|b|attra|b''] \<and>
   map (render_target (\<lambda>s. ''('' @ s @ '')'') '' '' (\<lambda>t. Some (5, ''a|b'')))
     (gen_item_getfunc2 (\<lambda>n. if n = ''function_call'' then 9 else 5) ()
        (LITERAL ''o'') ''k'')
     = [Some ''(a|b)( a|b )'']"
proof -
  let ?P = "\<lambda>n. if n = ''function_call'' then 9 else (5::int)"
  let ?E = "\<lambda>s. ''('' @ s @ '')''"
  let ?R = "\<lambda>t::target. Some (5::int, ''a|b'')"
  let ?ts = "[ONEOF
      [[ENCLOSE_UNDER 9 (Access ATTRIBUTE (LITERAL ''o'') ''get''), LITERAL ''('', WHITESPACE,
        STRING ''k'', WHITESPACE, LITERAL '')''],
       [ENCLOSE_UNDER 9 (Access ATTRIBUTE (LITERAL ''o'') ''get''), LITERAL ''('', WHITESPACE,
        STRING ''k'', WHITESPACE, LITERAL '',)'']]]"
  have g: "gen_item_getfunc2 ?P () (LITERAL ''o'') ''k'' = [EXPRESSION 9 ?ts]"
    by (simp add: gen_item_getfunc2_def)
  have 1: "gen_item_getfunc2 ?P () (LITERAL ''o'') ''k''
      \<in> set (enclosing_rules ?P () (LITERAL ''o'') ''k'')"
    by (simp add: enclosing_rules_def)
  have 2: "EXPRESSION 9 ?ts \<in> set (gen_item_getfunc2 ?P () (LITERAL ''o'') ''k'')"
    by (simp add: g)
  have 3: "(9, Access ATTRIBUTE (LITERAL ''o'') ''get'') \<in> set (enclosed (EXPRESSION 9 ?ts))"
    by simp
  have 4: "?R (Access ATTRIBUTE (LITERAL ''o'') ''get'') = Some (5, ''a|b'')"
    "?E ''a|b'' \<noteq> ''a|b''" "(5::int) < 9"
    by simp_all
  have 5: "re_match_name ''k'' \<noteq> None"
    by (simp add: re_match_name_def is_name_start_def)
  have 6: "?R (LITERAL ''o'') = Some (5, ''a|b'')" "?R (WRAP [STRING ''k'']) = Some (5, ''a|b'')"
    "?R (STRING ''k'') = Some (5, ''a|b'')"
    by simp_all
  note inst = enclosure_iff_lower_precedence
    [of "gen_item_getfunc2 ?P () (LITERAL ''o'') ''k''" "?P" "()" "LITERAL ''o''" "''k''"
       "9" "?ts" "9" "Access ATTRIBUTE (LITERAL ''o'') ''get''" "?R" "5" "''a|b''" "?E"
       "'' ''" "5" "''a|b''"]
  from inst 1 2 3 4
  have a: "render_target ?E '' '' ?R (ENCLOSE_UNDER 9 (Access ATTRIBUTE (LITERAL ''o'') ''get''))
      = Some (?E ''a|b'')"
    by blast
  from inst 5 6
  have b: "map (render_target ?E '' '' ?R) (gen_attribute_normal1 ?P () (LITERAL ''o'') ''k'')
      = [Some ((if (5::int) < ?P ''attribute'' then ?E ''a|b'' else ''a|b'') @ ''.'' @ ''k'')]"
    by blast
  from inst 6
  have c: "map (render_target ?E '' '' ?R) (gen_attribute_attrfilter ?P () (LITERAL ''o'') ''k'')
      = [Some ((if (5::int) < ?P ''filter'' then ?E ''a|b'' else ''a|b'') @ ''|attr'' @ ''a|b'')]"
    by blast
  from inst 6
  have d: "map (render_target ?E '' '' ?R) (gen_item_getfunc2 ?P () (LITERAL ''o'') ''k'')
      = [Some ((if (5::int) < ?P ''function_call'' then ?E ''a|b'' else ''a|b'')
               @ ''('' @ '' '' @ ''a|b'' @ '' '' @ '')'')]"
    by blast
  from 1 3 5 a b c d show ?thesis
    by (simp add: g)
qed
end
